theory Spec2Isabelle
  imports Complex_Main
begin

section \<open>Numbers, errors and arrays\<close>

text \<open>
  The flow engine of \<^verbatim>\<open>tube_planning\<close> (\<^verbatim>\<open>networks/network.py\<close>, \<^verbatim>\<open>flow.py\<close>) works
  on dense numpy matrices of floats. Capacities and flows are modelled as exact rationals:
  every theorem below is about the algorithm in exact arithmetic, and says nothing about
  the rounding of IEEE doubles. A two-dimensional array is the list of its rows.

  The code has one exception class, \<^verbatim>\<open>TubePlanningError\<close>, raised with a different
  message at each site; the messages are the constructors of \<open>message\<close>. Python's own
  \<^verbatim>\<open>IndexError\<close> and \<^verbatim>\<open>ValueError\<close> are the other two errors the modelled code can raise.
\<close>

datatype message =
    DestinationOutOfBounds      \<comment> \<open>Destination node out of bounds.\<close>
  | DestinationUnreachable      \<comment> \<open>Destination is unreachable from root.\<close>
  | AdjacencyNotSquare          \<comment> \<open>Adjacency matrix must be square.\<close>
  | AdjacencyNegative           \<comment> \<open>Adjacency matrix must be non-negative.\<close>
  | RootOutOfBounds             \<comment> \<open>Root node out of bounds.\<close>
  | ShapesDiffer                \<comment> \<open>Flow matrix and adjacency matrix shapes differ.\<close>
  | FlowNotSkewSymmetric        \<comment> \<open>Flow matrix must be skew-symmetric.\<close>
  | FlowExceedsCapacity         \<comment> \<open>Flow exceeds edge capacity.\<close>
  | SourceEqualsSink            \<comment> \<open>Source and sink must differ.\<close>
  | SourceOrSinkOutOfBounds     \<comment> \<open>Source or sink out of bounds.\<close>
  | MaxIterationsReached        \<comment> \<open>Maximum iterations reached without convergence.\<close>
  | TerminalsNotDisjoint        \<comment> \<open>Sources and sinks must be disjoint.\<close>
  | NoSourceOrNoSink            \<comment> \<open>Provide at least one source and one sink.\<close>
  | SourceIndexOutOfBounds      \<comment> \<open>Source index out of bounds.\<close>
  | SinkIndexOutOfBounds        \<comment> \<open>Sink index out of bounds.\<close>
  | TerminalsNotProvided        \<comment> \<open>Sources and sinks must be provided.\<close>
  | NegativeSupplyOrDemand      \<comment> \<open>Supplies and demands must be non-negative.\<close>
  | InsufficientSupply          \<comment> \<open>Insufficient total supply to meet demand.\<close>
  | DemandNotSatisfied          \<comment> \<open>Could not satisfy all demand.\<close>
  | FlowNotSquare               \<comment> \<open>Flow matrix must be square.\<close>
  | TerminalOutOfBounds         \<comment> \<open>Source or sink index out of bounds.\<close>
  | FlowNotConserved            \<comment> \<open>Flow does not conserve at intermediate nodes.\<close>
  | PathTooShort                \<comment> \<open>Path must contain at least two nodes.\<close>
  | PathInvalidIndex            \<comment> \<open>Path contains invalid node index.\<close>
  | NoMessage                   \<comment> \<open>\<^verbatim>\<open>TubePlanningError()\<close>, raised without a message\<close>

datatype error = TubePlanningError message | IndexError | ValueError

type_synonym matrix = "rat list list"

text \<open>\<^verbatim>\<open>Flow._EPS\<close>, and the default tolerances of \<^verbatim>\<open>np.isclose\<close> and \<^verbatim>\<open>np.allclose\<close>.\<close>

definition EPS :: rat where
  "EPS = 1 / 1000000000"

definition default_rtol :: rat where
  "default_rtol = 1 / 100000"

definition default_atol :: rat where
  "default_atol = 1 / 100000000"

text \<open>\<^verbatim>\<open>np.isclose(a, b, atol=atol)\<close> on finite numbers: the relative tolerance keeps
  its default.\<close>

definition isclose :: "rat \<Rightarrow> rat \<Rightarrow> rat \<Rightarrow> bool" where
  "isclose a b atol = (\<bar>a - b\<bar> \<le> atol + default_rtol * \<bar>b\<bar>)"

text \<open>\<^verbatim>\<open>np.allclose\<close> on two arrays of one shape.\<close>

definition allclose :: "matrix \<Rightarrow> matrix \<Rightarrow> rat \<Rightarrow> bool" where
  "allclose A B atol = list_all2 (list_all2 (\<lambda>a b. isclose a b atol)) A B"

text \<open>Indexing by a Python integer: a negative index counts from the end, an index out
  of range raises.\<close>

definition py_index :: "'a list \<Rightarrow> int \<Rightarrow> error + 'a" where
  "py_index xs i =
     (if 0 \<le> i \<and> i < int (length xs) then Inr (xs ! nat i)
      else if - int (length xs) \<le> i \<and> i < 0 then Inr (xs ! nat (i + int (length xs)))
      else Inl IndexError)"

definition mat_index :: "matrix \<Rightarrow> int \<Rightarrow> int \<Rightarrow> error + rat" where
  "mat_index m i j = (case py_index m i of Inl e \<Rightarrow> Inl e | Inr row \<Rightarrow> py_index row j)"

definition is_square :: "matrix \<Rightarrow> bool" where
  "is_square m = list_all (\<lambda>row. length row = length m) m"

definition zeros :: "nat \<Rightarrow> nat \<Rightarrow> matrix" where
  "zeros r c = replicate r (replicate c 0)"

definition mat_add :: "matrix \<Rightarrow> matrix \<Rightarrow> matrix" where
  "mat_add A B = map2 (map2 (+)) A B"

definition mat_sub :: "matrix \<Rightarrow> matrix \<Rightarrow> matrix" where
  "mat_sub A B = map2 (map2 (-)) A B"

definition mat_neg :: "matrix \<Rightarrow> matrix" where
  "mat_neg A = map (map uminus) A"

text \<open>The transpose of a square array.\<close>

definition mat_T :: "matrix \<Rightarrow> matrix" where
  "mat_T A = map (\<lambda>j. map (\<lambda>row. row ! j) A) [0..<length A]"

definition diag :: "matrix \<Rightarrow> rat list" where
  "diag A = map (\<lambda>i. A ! i ! i) [0..<length A]"

text \<open>\<^verbatim>\<open>np.fill_diagonal(matrix, 0.0)\<close>.\<close>

definition fill_diagonal :: "matrix \<Rightarrow> matrix" where
  "fill_diagonal A = map2 (\<lambda>i row. row[i := 0]) [0..<length A] A"

text \<open>\<^verbatim>\<open>m[i, j] = v\<close> and \<^verbatim>\<open>m[i, j] += v\<close> for indices in range.\<close>

definition mat_set :: "matrix \<Rightarrow> nat \<Rightarrow> nat \<Rightarrow> rat \<Rightarrow> matrix" where
  "mat_set m i j v = m[i := (m ! i)[j := v]]"

definition mat_inc :: "matrix \<Rightarrow> nat \<Rightarrow> nat \<Rightarrow> rat \<Rightarrow> matrix" where
  "mat_inc m i j v = m[i := (m ! i)[j := m ! i ! j + v]]"

text \<open>\<^verbatim>\<open>tuple(dict.fromkeys(xs))\<close>: duplicates dropped, the first occurrence kept.\<close>

definition fromkeys :: "int list \<Rightarrow> int list" where
  "fromkeys xs = rev (remdups (rev xs))"

section \<open>Flow\<close>

record flow =
  flow_matrix :: matrix
  sources :: "int list"
  sinks :: "int list"

definition flow_in :: "flow \<Rightarrow> rat list" where
  "flow_in f = map (\<lambda>j. sum_list (map (\<lambda>row. row ! j) (flow_matrix f))) [0..<length (flow_matrix f)]"

definition flow_out :: "flow \<Rightarrow> rat list" where
  "flow_out f = map sum_list (flow_matrix f)"

definition net_flow :: "flow \<Rightarrow> rat list" where
  "net_flow f = map2 (-) (flow_in f) (flow_out f)"

text \<open>\<^verbatim>\<open>Flow.value\<close>. The terminals of a constructed flow are indices in range
  (\<^verbatim>\<open>__init__\<close> checks them and the tuples are never changed), so the reads are in range.\<close>

definition flow_value :: "flow \<Rightarrow> rat" where
  "flow_value f =
     (if sources f \<noteq> [] then sum_list (map (\<lambda>s. flow_out f ! nat s) (sources f))
      else if sinks f \<noteq> [] then sum_list (map (\<lambda>s. flow_in f ! nat s) (sinks f))
      else 0)"

text \<open>\<^verbatim>\<open>Flow._conserves_flow\<close>.\<close>

definition conserves_flow :: "flow \<Rightarrow> bool" where
  "conserves_flow f =
     (if \<not> allclose (flow_matrix f) (mat_neg (mat_T (flow_matrix f))) EPS then False
      else if \<not> list_all (\<lambda>d. isclose d 0 EPS) (diag (flow_matrix f)) then False
      else list_all (\<lambda>(idx, v). int idx \<in> set (sources f) \<union> set (sinks f) \<or> isclose v 0 EPS)
             (enumerate 0 (net_flow f)))"

text \<open>\<^verbatim>\<open>Flow.__init__\<close>.\<close>

definition Flow_init :: "matrix \<Rightarrow> int list \<Rightarrow> int list \<Rightarrow> error + flow" where
  "Flow_init m srcs snks =
     (if \<not> is_square m then Inl (TubePlanningError FlowNotSquare)
      else let f = \<lparr>flow_matrix = m, sources = fromkeys srcs, sinks = fromkeys snks\<rparr> in
        if list_ex (\<lambda>node. node < 0 \<or> node \<ge> int (length m)) (sources f @ sinks f)
        then Inl (TubePlanningError TerminalOutOfBounds)
        else if \<not> conserves_flow f then Inl (TubePlanningError FlowNotConserved)
        else Inr f)"

definition zero_flow :: "nat \<Rightarrow> int list \<Rightarrow> int list \<Rightarrow> error + flow" where
  "zero_flow n srcs snks = Flow_init (zeros n n) srcs snks"

text \<open>\<^verbatim>\<open>Flow.send_flow_along\<close> updates the matrix in place, pair by pair, and checks
  each pair just before it updates. The model returns the flow as the call leaves it,
  with the error raised, if any.\<close>

fun send_pairs :: "matrix \<Rightarrow> (int \<times> int) list \<Rightarrow> rat \<Rightarrow> matrix \<times> error option" where
  "send_pairs m [] amount = (m, None)"
| "send_pairs m ((u, v) # ps) amount =
     (if u < 0 \<or> v < 0 \<or> u \<ge> int (length m) \<or> v \<ge> int (length m)
      then (m, Some (TubePlanningError PathInvalidIndex))
      else send_pairs (mat_inc (mat_inc m (nat u) (nat v) amount) (nat v) (nat u) (- amount)) ps amount)"

text \<open>\<^verbatim>\<open>zip(path[:-1], path[1:], strict=True)\<close>: the two slices are equally long.\<close>

definition pairs :: "int list \<Rightarrow> (int \<times> int) list" where
  "pairs path = zip (butlast path) (tl path)"

definition send_flow_along :: "flow \<Rightarrow> int list \<Rightarrow> rat \<Rightarrow> flow \<times> error option" where
  "send_flow_along f path amount =
     (if length path < 2 then (f, Some (TubePlanningError PathTooShort))
      else case send_pairs (flow_matrix f) (pairs path) amount of
             (m, r) \<Rightarrow> (f\<lparr>flow_matrix := m\<rparr>, r))"

section \<open>Network\<close>

record network =
  adjacency_matrix :: matrix

definition n_nodes :: "network \<Rightarrow> nat" where
  "n_nodes N = length (adjacency_matrix N)"

text \<open>\<^verbatim>\<open>Network(adj_mat=m)\<close>, the form of the constructor the flow engine uses
  (no edge table).\<close>

definition Network_init :: "matrix \<Rightarrow> error + network" where
  "Network_init adj_mat =
     (if \<not> is_square adj_mat then Inl (TubePlanningError AdjacencyNotSquare)
      else if list_ex (list_ex (\<lambda>x. x < 0)) adj_mat then Inl (TubePlanningError AdjacencyNegative)
      else Inr \<lparr>adjacency_matrix = fill_diagonal adj_mat\<rparr>)"

subsection \<open>Breadth-first search\<close>

text \<open>\<^verbatim>\<open>np.nonzero(row > 0)[0]\<close>: the indices of the positive entries, ascending.\<close>

definition neighbours :: "rat list \<Rightarrow> nat list" where
  "neighbours row = filter (\<lambda>j. row ! j > 0) [0..<length row]"

text \<open>The inner loop of \<^verbatim>\<open>bfs\<close> over the neighbours of \<open>current\<close>; the state is
  \<open>(visited, path_trace, queue)\<close>.\<close>

type_synonym bfs_state = "bool list \<times> int list \<times> nat list"

fun bfs_scan :: "nat \<Rightarrow> nat list \<Rightarrow> bfs_state \<Rightarrow> error + bfs_state" where
  "bfs_scan current [] s = Inr s"
| "bfs_scan current (nb # nbs) (visited, path_trace, queue) =
     (if length visited \<le> nb then Inl IndexError
      else if \<not> visited ! nb
      then bfs_scan current nbs (visited[nb := True], path_trace[nb := int current], queue @ [nb])
      else bfs_scan current nbs (visited, path_trace, queue))"

lemma bfs_scan_queue_grows:
  "bfs_scan current nbs (visited, path_trace, queue) = Inr (visited', path_trace', queue') \<Longrightarrow>
   length queue \<le> length queue'"
proof (induction nbs arbitrary: visited path_trace queue)
  case Nil
  then show ?case by simp
next
  case (Cons nb nbs)
  from Cons.prems have nb: "nb < length visited"
    by (simp split: if_splits)
  show ?case
  proof (cases "visited ! nb")
    case True
    with nb Cons.prems Cons.IH show ?thesis by simp
  next
    case False
    with nb Cons.prems
    have "bfs_scan current nbs (visited[nb := True], path_trace[nb := int current], queue @ [nb])
          = Inr (visited', path_trace', queue')" by simp
    from Cons.IH [OF this] show ?thesis by simp
  qed
qed

lemma unvisited_update:
  assumes "nb < length visited" and "\<not> visited ! nb"
  shows "Suc (length (filter Not (visited[nb := True]))) = length (filter Not visited)"
proof -
  have "visited = take nb visited @ visited ! nb # drop (Suc nb) visited"
    using assms(1) by (simp add: id_take_nth_drop)
  then have "length (filter Not visited) =
        length (filter Not (take nb visited @ visited ! nb # drop (Suc nb) visited))"
    by simp
  moreover have "visited[nb := True] = take nb visited @ True # drop (Suc nb) visited"
    using assms(1) by (simp add: upd_conv_take_nth_drop)
  ultimately show ?thesis using assms(2) by simp
qed

lemma bfs_scan_measure:
  "bfs_scan current nbs (visited, path_trace, queue) = Inr (visited', path_trace', queue') \<Longrightarrow>
   length (filter Not visited') + length queue' = length (filter Not visited) + length queue"
proof (induction nbs arbitrary: visited path_trace queue)
  case Nil
  then show ?case by simp
next
  case (Cons nb nbs)
  from Cons.prems have nb: "nb < length visited"
    by (simp split: if_splits)
  show ?case
  proof (cases "visited ! nb")
    case True
    with nb Cons.prems Cons.IH show ?thesis by simp
  next
    case False
    with nb Cons.prems
    have "bfs_scan current nbs (visited[nb := True], path_trace[nb := int current], queue @ [nb])
          = Inr (visited', path_trace', queue')" by simp
    from Cons.IH [OF this] unvisited_update [OF nb False]
    show ?thesis by simp
  qed
qed

text \<open>The outer loop, \<^verbatim>\<open>for current in queue\<close>, over a queue that grows while it is
  read: \<open>i\<close> is the position of the iterator.\<close>

function bfs_loop :: "matrix \<Rightarrow> nat \<Rightarrow> bfs_state \<Rightarrow> error + int list" where
  "bfs_loop adj i (visited, path_trace, queue) =
     (if i < length queue then
        (if length adj \<le> queue ! i then Inl IndexError
         else case bfs_scan (queue ! i) (neighbours (adj ! (queue ! i))) (visited, path_trace, queue) of
                Inl e \<Rightarrow> Inl e
              | Inr s' \<Rightarrow> bfs_loop adj (i + 1) s')
      else Inr path_trace)"
  by pat_completeness auto
termination
proof (relation "measure (\<lambda>(adj, i, (visited, path_trace, queue)).
                   length (filter Not visited) + (length queue - i))")
  show "wf (measure (\<lambda>(adj, i, (visited, path_trace, queue)).
                   length (filter Not visited) + (length queue - i)))" by simp
next
  fix adj :: matrix and i :: nat and visited :: "bool list" and path_trace :: "int list"
    and queue :: "nat list" and s' :: bfs_state
  assume i: "i < length queue"
    and scan: "bfs_scan (queue ! i) (neighbours (adj ! (queue ! i))) (visited, path_trace, queue) = Inr s'"
  obtain visited' path_trace' queue' where s': "s' = (visited', path_trace', queue')"
    by (cases s') auto
  from bfs_scan_measure [OF scan [unfolded s']] bfs_scan_queue_grows [OF scan [unfolded s']] i
  show "((adj, i + 1, s'), (adj, i, visited, path_trace, queue))
        \<in> measure (\<lambda>(adj, i, (visited, path_trace, queue)).
                   length (filter Not visited) + (length queue - i))"
    by (simp add: s')
qed

declare bfs_loop.simps [simp del]

text \<open>\<^verbatim>\<open>Network.bfs\<close>; its argument \<^verbatim>\<open>root\<close> is called \<open>start\<close> here.\<close>

definition bfs :: "network \<Rightarrow> int \<Rightarrow> error + int list" where
  "bfs N start =
     (if start < 0 \<or> start \<ge> int (n_nodes N) then Inl (TubePlanningError RootOutOfBounds)
      else bfs_loop (adjacency_matrix N) 0
             ((replicate (n_nodes N) False)[nat start := True],
              (replicate (n_nodes N) (- 1))[nat start := start],
              [nat start]))"

text \<open>\<^verbatim>\<open>Network.path_from_bfs\<close>. The \<^verbatim>\<open>while\<close> loop follows the predecessors and need
  not stop on a trace that no search produced, so the result is an option: \<open>None\<close> is a
  walk that never ends.\<close>

partial_function (option) path_walk :: "int list \<Rightarrow> int \<Rightarrow> int list \<Rightarrow> (error + int list) option" where
  "path_walk path_trace cur path =
     (case py_index path_trace cur of
        Inl e \<Rightarrow> Some (Inl e)
      | Inr p \<Rightarrow> if p \<noteq> cur then path_walk path_trace p (path @ [p]) else Some (Inr (rev path)))"

declare path_walk.simps [code]

definition path_from_bfs :: "int list \<Rightarrow> int \<Rightarrow> (error + int list) option" where
  "path_from_bfs path_trace dest =
     (if dest < 0 \<or> dest \<ge> int (length path_trace) then Some (Inl (TubePlanningError DestinationOutOfBounds))
      else if path_trace ! nat dest < 0 then Some (Inl (TubePlanningError DestinationUnreachable))
      else path_walk path_trace dest [dest])"

subsection \<open>Edmonds-Karp\<close>

text \<open>The bottleneck of a path: \<^verbatim>\<open>min(residual[i, j] for i, j in zip(...))\<close>. Python's
  \<^verbatim>\<open>min\<close> of no values raises \<^verbatim>\<open>ValueError\<close>.\<close>

fun edge_capacities :: "matrix \<Rightarrow> (int \<times> int) list \<Rightarrow> error + rat list" where
  "edge_capacities R [] = Inr []"
| "edge_capacities R ((i, j) # ps) =
     (case mat_index R i j of
        Inl e \<Rightarrow> Inl e
      | Inr c \<Rightarrow> (case edge_capacities R ps of Inl e \<Rightarrow> Inl e | Inr cs \<Rightarrow> Inr (c # cs)))"

definition py_min :: "rat list \<Rightarrow> error + rat" where
  "py_min xs = (case xs of [] \<Rightarrow> Inl ValueError | x # ys \<Rightarrow> Inr (fold min ys x))"

definition bottleneck :: "matrix \<Rightarrow> int list \<Rightarrow> error + rat" where
  "bottleneck R path =
     (case edge_capacities R (pairs path) of Inl e \<Rightarrow> Inl e | Inr cs \<Rightarrow> py_min cs)"

text \<open>One pass through the body of the loop of \<^verbatim>\<open>Network.edmonds_karp\<close>: it leaves the
  loop (\<^verbatim>\<open>converged = True; break\<close>), or goes on with the flow it has augmented, or
  raises.\<close>

datatype iteration = Converged | Augmented flow

definition ek_body :: "network \<Rightarrow> int \<Rightarrow> int \<Rightarrow> flow \<Rightarrow> (error + iteration) option" where
  "ek_body N source sink f =
     (case Network_init (mat_sub (adjacency_matrix N) (flow_matrix f)) of
        Inl e \<Rightarrow> Some (Inl e)
      | Inr residual \<Rightarrow>
          (case bfs residual source of
             Inl e \<Rightarrow> Some (Inl e)
           | Inr path_trace \<Rightarrow>
               (case py_index path_trace sink of
                  Inl e \<Rightarrow> Some (Inl e)
                | Inr reached \<Rightarrow>
                    if reached < 0 then Some (Inr Converged)
                    else (case path_from_bfs path_trace sink of
                            None \<Rightarrow> None
                          | Some (Inl e) \<Rightarrow> Some (Inl e)
                          | Some (Inr path) \<Rightarrow>
                              (case bottleneck (adjacency_matrix residual) path of
                                 Inl e \<Rightarrow> Some (Inl e)
                               | Inr augment \<Rightarrow>
                                   (case send_flow_along f path augment of
                                      (f', Some e) \<Rightarrow> Some (Inl e)
                                    | (f', None) \<Rightarrow> Some (Inr (Augmented f'))))))))"

text \<open>\<^verbatim>\<open>for _ in range(maxiter)\<close>, and the \<^verbatim>\<open>raise\<close> after it when the loop was not
  left by \<^verbatim>\<open>break\<close>.\<close>

primrec ek_loop :: "nat \<Rightarrow> network \<Rightarrow> int \<Rightarrow> int \<Rightarrow> flow \<Rightarrow> (error + flow) option" where
  "ek_loop 0 N source sink f = Some (Inl (TubePlanningError MaxIterationsReached))"
| "ek_loop (Suc k) N source sink f =
     (case ek_body N source sink f of
        None \<Rightarrow> None
      | Some (Inl e) \<Rightarrow> Some (Inl e)
      | Some (Inr Converged) \<Rightarrow> Some (Inr f)
      | Some (Inr (Augmented f')) \<Rightarrow> ek_loop k N source sink f')"

text \<open>\<^verbatim>\<open>Network.edmonds_karp\<close>.\<close>

definition edmonds_karp :: "network \<Rightarrow> int \<Rightarrow> int \<Rightarrow> int \<Rightarrow> (error + flow) option" where
  "edmonds_karp N source sink maxiter =
     (if source = sink then Some (Inl (TubePlanningError SourceEqualsSink))
      else if source < 0 \<or> sink < 0 \<or> source \<ge> int (n_nodes N) \<or> sink \<ge> int (n_nodes N)
      then Some (Inl (TubePlanningError SourceOrSinkOutOfBounds))
      else case zero_flow (n_nodes N) [source] [sink] of
             Inl e \<Rightarrow> Some (Inl e)
           | Inr f \<Rightarrow> ek_loop (nat maxiter) N source sink f)"

text \<open>The module-level function \<^verbatim>\<open>edmonds_karp(G, s, t, mi)\<close>, translated from its own
  body: it validates nothing itself and raises \<^verbatim>\<open>TubePlanningError()\<close> with no message.\<close>

definition fn_body :: "network \<Rightarrow> int \<Rightarrow> int \<Rightarrow> flow \<Rightarrow> (error + iteration) option" where
  "fn_body G s t f =
     (case Network_init (mat_sub (adjacency_matrix G) (flow_matrix f)) of
        Inl e \<Rightarrow> Some (Inl e)
      | Inr rg \<Rightarrow>
          (case bfs rg s of
             Inl e \<Rightarrow> Some (Inl e)
           | Inr pt \<Rightarrow>
               (case py_index pt t of
                  Inl e \<Rightarrow> Some (Inl e)
                | Inr reached \<Rightarrow>
                    if reached < 0 then Some (Inr Converged)
                    else (case path_from_bfs pt t of
                            None \<Rightarrow> None
                          | Some (Inl e) \<Rightarrow> Some (Inl e)
                          | Some (Inr p) \<Rightarrow>
                              (case bottleneck (adjacency_matrix rg) p of
                                 Inl e \<Rightarrow> Some (Inl e)
                               | Inr a \<Rightarrow>
                                   (case send_flow_along f p a of
                                      (f', Some e) \<Rightarrow> Some (Inl e)
                                    | (f', None) \<Rightarrow> Some (Inr (Augmented f'))))))))"

primrec fn_loop :: "nat \<Rightarrow> network \<Rightarrow> int \<Rightarrow> int \<Rightarrow> flow \<Rightarrow> (error + flow) option" where
  "fn_loop 0 G s t f = Some (Inl (TubePlanningError NoMessage))"
| "fn_loop (Suc k) G s t f =
     (case fn_body G s t f of
        None \<Rightarrow> None
      | Some (Inl e) \<Rightarrow> Some (Inl e)
      | Some (Inr Converged) \<Rightarrow> Some (Inr f)
      | Some (Inr (Augmented f')) \<Rightarrow> fn_loop k G s t f')"

definition edmonds_karp_fn :: "network \<Rightarrow> int \<Rightarrow> int \<Rightarrow> int \<Rightarrow> (error + flow) option" where
  "edmonds_karp_fn G s t mi =
     (case zero_flow (n_nodes G) [s] [t] of
        Inl e \<Rightarrow> Some (Inl e)
      | Inr f \<Rightarrow> fn_loop (nat mi) G s t f)"

subsection \<open>The capacity constraint\<close>



subsection \<open>The multi-terminal reductions\<close>

text \<open>\<^verbatim>\<open>expanded = np.zeros((k, k)); expanded[:n, :n] = A\<close> for an \<open>n \<times> n\<close> array
  \<open>A\<close>, and the slice \<^verbatim>\<open>m[:n, :n]\<close>.\<close>

definition embed :: "matrix \<Rightarrow> nat \<Rightarrow> matrix" where
  "embed A k =
     map (\<lambda>i. map (\<lambda>j. if i < length A \<and> j < length A then A ! i ! j else 0) [0..<k]) [0..<k]"

definition top_left :: "matrix \<Rightarrow> nat \<Rightarrow> matrix" where
  "top_left m n = map (take n) (take n m)"

text \<open>The two loops that connect the super-source \<open>n\<close> and the super-sink \<open>n + 1\<close> to the
  terminals, over the pairs of a node and the capacity of its super-edge.\<close>

fun connect_sources :: "matrix \<Rightarrow> nat \<Rightarrow> (int \<times> rat) list \<Rightarrow> error + matrix" where
  "connect_sources expanded n [] = Inr expanded"
| "connect_sources expanded n ((node, capacity) # rest) =
     (if node < 0 \<or> node \<ge> int n then Inl (TubePlanningError SourceIndexOutOfBounds)
      else connect_sources
             (mat_set (mat_set expanded n (nat node) capacity) (nat node) n capacity) n rest)"

fun connect_sinks :: "matrix \<Rightarrow> nat \<Rightarrow> (int \<times> rat) list \<Rightarrow> error + matrix" where
  "connect_sinks expanded n [] = Inr expanded"
| "connect_sinks expanded n ((node, capacity) # rest) =
     (if node < 0 \<or> node \<ge> int n then Inl (TubePlanningError SinkIndexOutOfBounds)
      else connect_sinks
             (mat_set (mat_set expanded (nat node) (n + 1) capacity) (n + 1) (nat node) capacity) n rest)"

text \<open>\<^verbatim>\<open>Network.maximum_flow\<close>.\<close>

definition maximum_flow :: "network \<Rightarrow> int list \<Rightarrow> int list \<Rightarrow> int \<Rightarrow> (error + flow) option" where
  "maximum_flow N srcs snks maxiter =
     (if set (fromkeys srcs) \<inter> set (fromkeys snks) \<noteq> {}
      then Some (Inl (TubePlanningError TerminalsNotDisjoint))
      else if fromkeys srcs = [] \<or> fromkeys snks = []
      then Some (Inl (TubePlanningError NoSourceOrNoSink))
      else
        let n = n_nodes N;
            total = sum_list (map sum_list (adjacency_matrix N));
            total_capacity = (if total \<le> 0 then 1 else total)
        in case connect_sources (embed (adjacency_matrix N) (n + 2)) n
                  (map (\<lambda>s. (s, total_capacity)) (fromkeys srcs)) of
             Inl e \<Rightarrow> Some (Inl e)
           | Inr with_sources \<Rightarrow>
               (case connect_sinks with_sources n (map (\<lambda>t. (t, total_capacity)) (fromkeys snks)) of
                  Inl e \<Rightarrow> Some (Inl e)
                | Inr expanded \<Rightarrow>
                    (case Network_init expanded of
                       Inl e \<Rightarrow> Some (Inl e)
                     | Inr expanded_net \<Rightarrow>
                         (case edmonds_karp expanded_net (int n) (int n + 1) maxiter of
                            None \<Rightarrow> None
                          | Some (Inl e) \<Rightarrow> Some (Inl e)
                          | Some (Inr expanded_flow) \<Rightarrow>
                              Some (Flow_init (top_left (flow_matrix expanded_flow) n)
                                      (fromkeys srcs) (fromkeys snks))))))"

text \<open>\<^verbatim>\<open>Network.sufficient_flow\<close>. Its arguments \<^verbatim>\<open>sources\<close> and \<^verbatim>\<open>sinks\<close> are
  dictionaries from a node to its supply or demand; a dictionary is the list of its items
  in insertion order.\<close>

definition sufficient_flow ::
  "network \<Rightarrow> (int \<times> rat) list \<Rightarrow> (int \<times> rat) list \<Rightarrow> int \<Rightarrow> (error + flow) option" where
  "sufficient_flow N supply_by_node demand_by_node maxiter =
     (if supply_by_node = [] \<or> demand_by_node = []
      then Some (Inl (TubePlanningError TerminalsNotProvided))
      else if list_ex (\<lambda>val. val < 0) (map snd supply_by_node)
              \<or> list_ex (\<lambda>val. val < 0) (map snd demand_by_node)
      then Some (Inl (TubePlanningError NegativeSupplyOrDemand))
      else
        let n = n_nodes N;
            total_supply = sum_list (map snd supply_by_node);
            total_demand = sum_list (map snd demand_by_node)
        in if total_supply + EPS < total_demand
           then Some (Inl (TubePlanningError InsufficientSupply))
           else
             (case connect_sources (embed (adjacency_matrix N) (n + 2)) n supply_by_node of
                Inl e \<Rightarrow> Some (Inl e)
              | Inr with_sources \<Rightarrow>
                  (case connect_sinks with_sources n demand_by_node of
                     Inl e \<Rightarrow> Some (Inl e)
                   | Inr expanded \<Rightarrow>
                       (case Network_init expanded of
                          Inl e \<Rightarrow> Some (Inl e)
                        | Inr expanded_net \<Rightarrow>
                            (case edmonds_karp expanded_net (int n) (int n + 1) maxiter of
                               None \<Rightarrow> None
                             | Some (Inl e) \<Rightarrow> Some (Inl e)
                             | Some (Inr expanded_flow) \<Rightarrow>
                                 if flow_value expanded_flow + EPS < total_demand
                                 then Some (Inl (TubePlanningError DemandNotSatisfied))
                                 else Some (Flow_init (top_left (flow_matrix expanded_flow) n)
                                              (map fst supply_by_node) (map fst demand_by_node)))))))"

subsection \<open>Combining and comparing networks\<close>

text \<open>\<^verbatim>\<open>Network.__add__\<close> for two networks.\<close>

definition Network_add :: "network \<Rightarrow> network \<Rightarrow> error + network" where
  "Network_add self other =
     (let larger = (if n_nodes other < n_nodes self then self else other);
          smaller = (if n_nodes other < n_nodes self then other else self);
          smaller_expanded_matrix = embed (adjacency_matrix smaller) (n_nodes larger)
      in Network_init (mat_add (adjacency_matrix larger) smaller_expanded_matrix))"

text \<open>\<^verbatim>\<open>Network.__eq__\<close> for two networks: \<^verbatim>\<open>np.allclose\<close> with its default tolerances.
  Two square arrays of different sizes broadcast when one of them is \<open>1 \<times> 1\<close>, and
  \<^verbatim>\<open>np.allclose\<close> raises \<^verbatim>\<open>ValueError\<close> otherwise.\<close>

definition Network_eq :: "network \<Rightarrow> network \<Rightarrow> error + bool" where
  "Network_eq self other =
     (let A = adjacency_matrix self; B = adjacency_matrix other in
      if length A = length B then Inr (allclose A B default_atol)
      else if length A = 1
      then Inr (list_all (list_all (\<lambda>b. isclose (A ! 0 ! 0) b default_atol)) B)
      else if length B = 1
      then Inr (list_all (list_all (\<lambda>a. isclose a (B ! 0 ! 0) default_atol)) A)
      else Inl ValueError)"

section \<open>Invariants\<close>

text \<open>What the constructor of \<^verbatim>\<open>Network\<close> establishes, besides squareness: no negative
  entry, and a zero diagonal.\<close>

definition nonneg :: "matrix \<Rightarrow> bool" where
  "nonneg A = list_all (list_all (\<lambda>x. 0 \<le> x)) A"

definition zero_diag :: "matrix \<Rightarrow> bool" where
  "zero_diag A = list_all (\<lambda>d. d = 0) (diag A)"




section \<open>Facts about arrays, flows and networks\<close>

lemma is_square_iff: "is_square m \<longleftrightarrow> (\<forall>i < length m. length (m ! i) = length m)"
  by (simp add: is_square_def list_all_length)

lemma length_mat_T [simp]: "length (mat_T A) = length A"
  by (simp add: mat_T_def)

lemma nth_mat_T: "i < length A \<Longrightarrow> mat_T A ! i = map (\<lambda>row. row ! i) A"
  by (simp add: mat_T_def)

lemma length_mat_neg [simp]: "length (mat_neg A) = length A"
  by (simp add: mat_neg_def)

lemma nth_mat_neg: "i < length A \<Longrightarrow> mat_neg A ! i = map uminus (A ! i)"
  by (simp add: mat_neg_def)

lemma allclose_skew_iff:
  assumes "is_square m"
  shows "allclose m (mat_neg (mat_T m)) atol \<longleftrightarrow>
         (\<forall>i < length m. \<forall>j < length m. isclose (m ! i ! j) (- (m ! j ! i)) atol)"
  using assms
  by (auto simp: allclose_def list_all2_conv_all_nth nth_mat_neg nth_mat_T is_square_iff)

lemma list_all_diag_iff:
  "list_all P (diag m) \<longleftrightarrow> (\<forall>i < length m. P (m ! i ! i))"
  by (simp add: diag_def list_all_length)

lemma length_net_flow [simp]: "length (net_flow f) = length (flow_matrix f)"
  by (simp add: net_flow_def flow_in_def flow_out_def)

lemma nth_net_flow:
  "i < length (flow_matrix f) \<Longrightarrow>
   net_flow f ! i = sum_list (map (\<lambda>row. row ! i) (flow_matrix f)) - sum_list (flow_matrix f ! i)"
  by (simp add: net_flow_def flow_in_def flow_out_def)

lemma list_all_enumerate_iff:
  "list_all P (enumerate 0 xs) \<longleftrightarrow> (\<forall>i < length xs. P (i, xs ! i))"
  by (simp add: list_all_length nth_enumerate_eq)

lemma set_fromkeys [simp]: "set (fromkeys xs) = set xs"
  by (simp add: fromkeys_def)

lemma distinct_fromkeys [simp]: "distinct (fromkeys xs)"
  by (simp add: fromkeys_def)

lemma conserves_flow_iff:
  assumes "is_square (flow_matrix f)"
  shows "conserves_flow f \<longleftrightarrow>
     (\<forall>i < length (flow_matrix f). \<forall>j < length (flow_matrix f).
         \<bar>flow_matrix f ! i ! j + flow_matrix f ! j ! i\<bar> \<le> EPS + default_rtol * \<bar>flow_matrix f ! j ! i\<bar>)
     \<and> (\<forall>i < length (flow_matrix f). \<bar>flow_matrix f ! i ! i\<bar> \<le> EPS)
     \<and> (\<forall>i < length (flow_matrix f). int i \<notin> set (sources f) \<union> set (sinks f) \<longrightarrow>
           \<bar>sum_list (map (\<lambda>row. row ! i) (flow_matrix f)) - sum_list (flow_matrix f ! i)\<bar> \<le> EPS)"
  unfolding conserves_flow_def
  by (auto simp: allclose_skew_iff [OF assms] list_all_diag_iff list_all_enumerate_iff
        nth_net_flow isclose_def)

lemma nonneg_iff: "nonneg A \<longleftrightarrow> (\<forall>i < length A. \<forall>j < length (A ! i). 0 \<le> A ! i ! j)"
  by (simp add: nonneg_def list_all_length)

lemma zero_diag_iff: "zero_diag A \<longleftrightarrow> (\<forall>i < length A. A ! i ! i = 0)"
  by (simp add: zero_diag_def list_all_diag_iff)

lemma no_negative_iff: "list_ex (list_ex (\<lambda>x. x < 0)) A \<longleftrightarrow> \<not> nonneg A"
  by (auto simp: nonneg_def list_ex_iff list_all_iff not_le)

lemma length_fill_diagonal [simp]: "length (fill_diagonal A) = length A"
  by (simp add: fill_diagonal_def)

lemma nth_fill_diagonal: "i < length A \<Longrightarrow> fill_diagonal A ! i = (A ! i)[i := 0]"
  by (simp add: fill_diagonal_def)

lemma fill_diagonal_id:
  assumes "zero_diag A"
  shows "fill_diagonal A = A"
proof (rule nth_equalityI)
  show "length (fill_diagonal A) = length A" by simp
next
  fix i assume "i < length (fill_diagonal A)"
  then have i: "i < length A" by simp
  with assms have "A ! i ! i = 0" by (simp add: zero_diag_iff)
  then have "(A ! i)[i := 0] = A ! i" by (metis list_update_id)
  with i show "fill_diagonal A ! i = A ! i" by (simp add: nth_fill_diagonal)
qed

lemma is_square_fill_diagonal: "is_square A \<Longrightarrow> is_square (fill_diagonal A)"
  by (simp add: is_square_iff nth_fill_diagonal)

lemma nonneg_fill_diagonal:
  assumes "nonneg A"
  shows "nonneg (fill_diagonal A)"
  unfolding nonneg_iff
proof (intro allI impI)
  fix i j assume i: "i < length (fill_diagonal A)" and j: "j < length (fill_diagonal A ! i)"
  then have "j < length (A ! i)" by (simp add: nth_fill_diagonal)
  with assms i have "0 \<le> A ! i ! j" by (simp add: nonneg_iff)
  with i j show "0 \<le> fill_diagonal A ! i ! j"
    by (cases "j = i") (simp_all add: nth_fill_diagonal)
qed

lemma zero_diag_fill_diagonal: "is_square A \<Longrightarrow> zero_diag (fill_diagonal A)"
  by (simp add: zero_diag_iff is_square_iff nth_fill_diagonal)

lemma Network_init_Inr_iff:
  "Network_init m = Inr N \<longleftrightarrow> is_square m \<and> nonneg m \<and> N = \<lparr>adjacency_matrix = fill_diagonal m\<rparr>"
  by (auto simp: Network_init_def no_negative_iff)

lemma Network_init_ok:
  assumes "Network_init m = Inr N"
  shows "is_square (adjacency_matrix N)" and "nonneg (adjacency_matrix N)"
    and "zero_diag (adjacency_matrix N)" and "n_nodes N = length m"
  using assms
  by (simp_all add: Network_init_Inr_iff is_square_fill_diagonal nonneg_fill_diagonal
      zero_diag_fill_diagonal n_nodes_def)

lemma Network_init_fixed:
  "is_square A \<Longrightarrow> nonneg A \<Longrightarrow> zero_diag A \<Longrightarrow> Network_init A = Inr \<lparr>adjacency_matrix = A\<rparr>"
  by (simp add: Network_init_Inr_iff fill_diagonal_id)

lemma length_zeros [simp]: "length (zeros r c) = r"
  by (simp add: zeros_def)

lemma nth_zeros: "i < r \<Longrightarrow> zeros r c ! i = replicate c 0"
  by (simp add: zeros_def)

lemma is_square_zeros: "is_square (zeros n n)"
  by (simp add: is_square_iff nth_zeros)

lemma nonneg_zeros: "nonneg (zeros n n)"
  by (simp add: nonneg_iff nth_zeros)

lemma zero_diag_zeros: "zero_diag (zeros n n)"
  by (simp add: zero_diag_iff nth_zeros)

lemma length_embed [simp]: "length (embed A k) = k"
  by (simp add: embed_def)

lemma nth_embed:
  "i < k \<Longrightarrow> embed A k ! i = map (\<lambda>j. if i < length A \<and> j < length A then A ! i ! j else 0) [0..<k]"
  by (simp add: embed_def)

lemma embed_square: "is_square A \<Longrightarrow> embed A (length A) = A"
proof (rule nth_equalityI)
  show "length (embed A (length A)) = length A" by simp
next
  fix i assume "is_square A" and "i < length (embed A (length A))"
  then have i: "i < length A" and len: "length (A ! i) = length A"
    by (simp_all add: is_square_iff)
  show "embed A (length A) ! i = A ! i"
    by (rule nth_equalityI) (simp_all add: nth_embed i len)
qed

lemma embed_zeros: "embed (zeros n n) n = zeros n n"
  using embed_square [OF is_square_zeros, of n] by simp

lemma mat_add_zeros_left:
  assumes "is_square A"
  shows "mat_add (zeros (length A) (length A)) A = A"
proof (rule nth_equalityI)
  show "length (mat_add (zeros (length A) (length A)) A) = length A"
    by (simp add: mat_add_def)
next
  fix i assume "i < length (mat_add (zeros (length A) (length A)) A)"
  then have i: "i < length A" by (simp add: mat_add_def)
  with assms have len: "length (A ! i) = length A" by (simp add: is_square_iff)
  show "mat_add (zeros (length A) (length A)) A ! i = A ! i"
    by (rule nth_equalityI) (simp_all add: mat_add_def i len nth_zeros)
qed

lemma mat_add_zeros_right:
  assumes "is_square A"
  shows "mat_add A (zeros (length A) (length A)) = A"
proof (rule nth_equalityI)
  show "length (mat_add A (zeros (length A) (length A))) = length A"
    by (simp add: mat_add_def)
next
  fix i assume "i < length (mat_add A (zeros (length A) (length A)))"
  then have i: "i < length A" by (simp add: mat_add_def)
  with assms have len: "length (A ! i) = length A" by (simp add: is_square_iff)
  show "mat_add A (zeros (length A) (length A)) ! i = A ! i"
    by (rule nth_equalityI) (simp_all add: mat_add_def i len nth_zeros)
qed

lemma allclose_refl: "0 \<le> atol \<Longrightarrow> allclose A A atol"
  by (simp add: allclose_def list_all2_conv_all_nth isclose_def default_rtol_def)

lemma pairs_simps [simp]:
  "pairs [] = []" "pairs [x] = []" "pairs (x # y # zs) = (x, y) # pairs (y # zs)"
  by (simp_all add: pairs_def)

lemma length_mat_inc [simp]: "length (mat_inc m i j v) = length m"
  by (simp add: mat_inc_def)

subsection \<open>The search keeps its invariant\<close>








subsection \<open>The path read off a trace of the search\<close>





subsection \<open>Bottleneck and augmentation\<close>












subsection \<open>The loop keeps its invariant\<close>






















section \<open>The maximum flow of the two-node network\<close>

text \<open>
  C1. The network built from the matrix \<open>[[0,3],[3,0]]\<close> is that matrix; on it
  \<^verbatim>\<open>edmonds_karp(0, 1)\<close>, with the default budget of 1000 iterations, returns a flow, which
  sends 3 from node 0 to node 1, and the value of that flow is exactly 3.
\<close>

theorem edmonds_karp_two_nodes:
  "Network_init [[0, 3], [3, 0]] = Inr \<lparr>adjacency_matrix = [[0, 3], [3, 0]]\<rparr>
   \<and> edmonds_karp \<lparr>adjacency_matrix = [[0, 3], [3, 0]]\<rparr> 0 1 1000
       = Some (Inr \<lparr>flow_matrix = [[0, 3], [- 3, 0]], sources = [0], sinks = [1]\<rparr>)
   \<and> flow_value \<lparr>flow_matrix = [[0, 3], [- 3, 0]], sources = [0], sinks = [1]\<rparr> = 3"
  by code_simp

section \<open>The invariant of a constructed flow\<close>

text \<open>
  C2, as the code has it. \<^verbatim>\<open>Flow(m, srcs, snks)\<close> returns a flow exactly when \<open>m\<close> is
  square, every terminal is an index in range, and
  \<^item> \<open>F[i][j]\<close> and \<open>-F[j][i]\<close> are close in the sense of \<^verbatim>\<open>np.allclose(..., atol=1e-9)\<close>,
    which keeps the default relative tolerance: \<open>|F[i][j] + F[j][i]| \<le> 1e-9 + 1e-5 * |F[j][i]|\<close>;
  \<^item> the diagonal is zero within \<open>1e-9\<close>;
  \<^item> at every node that is neither a source nor a sink, the column sum and the row sum
    differ by at most \<open>1e-9\<close>.
  Every other matrix is rejected, and the flow returned holds the matrix and the
  deduplicated terminals.
\<close>

theorem Flow_init_invariant:
  "Flow_init m srcs snks = Inr f \<longleftrightarrow>
     f = \<lparr>flow_matrix = m, sources = fromkeys srcs, sinks = fromkeys snks\<rparr>
     \<and> is_square m
     \<and> (\<forall>node \<in> set srcs \<union> set snks. 0 \<le> node \<and> node < int (length m))
     \<and> (\<forall>i < length m. \<forall>j < length m.
           \<bar>m ! i ! j + m ! j ! i\<bar> \<le> EPS + default_rtol * \<bar>m ! j ! i\<bar>)
     \<and> (\<forall>i < length m. \<bar>m ! i ! i\<bar> \<le> EPS)
     \<and> (\<forall>i < length m. int i \<notin> set srcs \<union> set snks \<longrightarrow>
           \<bar>sum_list (map (\<lambda>row. row ! i) m) - sum_list (m ! i)\<bar> \<le> EPS)"
proof (cases "is_square m")
  case False
  then show ?thesis by (simp add: Flow_init_def)
next
  case True
  let ?f = "\<lparr>flow_matrix = m, sources = fromkeys srcs, sinks = fromkeys snks\<rparr>"
  let ?inrange = "\<forall>node \<in> set srcs \<union> set snks. 0 \<le> node \<and> node < int (length m)"
  have sq: "is_square (flow_matrix ?f)" using True by simp
  have oob: "list_ex (\<lambda>node. node < 0 \<or> int (length m) \<le> node) (sources ?f @ sinks ?f) \<longleftrightarrow> \<not> ?inrange"
    unfolding list_ex_iff by (simp add: not_le not_less)
  have cons: "conserves_flow ?f \<longleftrightarrow>
     (\<forall>i < length m. \<forall>j < length m.
           \<bar>m ! i ! j + m ! j ! i\<bar> \<le> EPS + default_rtol * \<bar>m ! j ! i\<bar>)
     \<and> (\<forall>i < length m. \<bar>m ! i ! i\<bar> \<le> EPS)
     \<and> (\<forall>i < length m. int i \<notin> set srcs \<union> set snks \<longrightarrow>
           \<bar>sum_list (map (\<lambda>row. row ! i) m) - sum_list (m ! i)\<bar> \<le> EPS)"
    using conserves_flow_iff [OF sq] by simp
  have init: "Flow_init m srcs snks =
        (if \<not> ?inrange then Inl (TubePlanningError TerminalOutOfBounds)
         else if \<not> conserves_flow ?f then Inl (TubePlanningError FlowNotConserved)
         else Inr ?f)"
    using True oob by (simp add: Flow_init_def Let_def)
  show ?thesis
  proof (cases "?inrange \<and> conserves_flow ?f")
    case ok: True
    then have "Flow_init m srcs snks = Inr ?f" using init by simp
    with ok True cons show ?thesis by auto
  next
    case bad: False
    then have "\<forall>g. Flow_init m srcs snks \<noteq> Inr g" using init by auto
    with bad cons show ?thesis by blast
  qed
qed

theorem Flow_init_invariant_witness:
  "Flow_init [[0, 1, 0], [- 1, 0, 1], [0, - 1, 0]] [0] [2]
     = Inr \<lparr>flow_matrix = [[0, 1, 0], [- 1, 0, 1], [0, - 1, 0]], sources = [0], sinks = [2]\<rparr>
   \<and> \<bar>[[0, 1, 0], [- 1, 0, 1], [0, - 1, 0]] ! 0 ! 1 + [[0, 1, 0], [- 1, 0, 1], [0, - 1, 0]] ! 1 ! 0\<bar>
       \<le> EPS + default_rtol * \<bar>[[0, 1, 0], [- 1, 0, 1], [0, - 1, 0 :: rat]] ! 1 ! 0\<bar>
   \<and> \<bar>sum_list (map (\<lambda>row. row ! 1) [[0, 1, 0], [- 1, 0, 1], [0, - 1, 0]])
        - sum_list ([[0, 1, 0], [- 1, 0, 1], [0, - 1, 0 :: rat]] ! 1)\<bar> \<le> EPS
   \<and> (\<forall>f. Flow_init [[0, 1], [- 1, 0]] [] [] \<noteq> Inr f)"
proof -
  let ?m = "[[0, 1, 0], [- 1, 0, 1], [0, - 1, 0 :: rat]]"
  let ?f = "\<lparr>flow_matrix = ?m, sources = [0], sinks = [2]\<rparr>"
  have e: "Flow_init ?m [0] [2] = Inr ?f" by code_simp
  note t = Flow_init_invariant [of ?m "[0]" "[2]" ?f, THEN iffD1, OF e]
  from t have sk: "\<forall>i < length ?m. \<forall>j < length ?m.
           \<bar>?m ! i ! j + ?m ! j ! i\<bar> \<le> EPS + default_rtol * \<bar>?m ! j ! i\<bar>"
    and co: "\<forall>i < length ?m. int i \<notin> set [0] \<union> set [2] \<longrightarrow>
           \<bar>sum_list (map (\<lambda>row. row ! i) ?m) - sum_list (?m ! i)\<bar> \<le> EPS"
    by blast+
  from sk [rule_format, of 0 1]
  have 1: "\<bar>?m ! 0 ! 1 + ?m ! 1 ! 0\<bar> \<le> EPS + default_rtol * \<bar>?m ! 1 ! 0\<bar>"
    by simp
  from co [rule_format, of 1]
  have 2: "\<bar>sum_list (map (\<lambda>row. row ! 1) ?m) - sum_list (?m ! 1)\<bar> \<le> EPS"
    by simp
  have "\<not> \<bar>sum_list (map (\<lambda>row. row ! 0) [[0, 1], [- 1, 0 :: rat]]) - sum_list ([[0, 1], [- 1, 0]] ! 0)\<bar> \<le> EPS"
    by (simp add: EPS_def)
  then have 3: "\<forall>f. Flow_init [[0, 1], [- 1, 0]] [] [] \<noteq> Inr f"
    using Flow_init_invariant [of "[[0, 1], [- 1, 0]]" "[]" "[]"] by auto
  from e 1 2 3 show ?thesis by blast
qed

text \<open>
  C2 as stated, with skew-symmetry within the absolute tolerance \<open>1e-9\<close>, fails: the
  matrix \<open>[[0, 1000000], [-1000001, 0]]\<close> with source 0 and sink 1 is accepted, and its two
  off-diagonal entries differ from skew-symmetry by 1.
\<close>

theorem Flow_init_relative_tolerance:
  "Flow_init [[0, 1000000], [- 1000001, 0]] [0] [1]
     = Inr \<lparr>flow_matrix = [[0, 1000000], [- 1000001, 0]], sources = [0], sinks = [1]\<rparr>
   \<and> \<not> \<bar>[[0, 1000000], [- 1000001, 0]] ! 0 ! 1 + [[0, 1000000], [- 1000001, 0 :: rat]] ! 1 ! 0\<bar> \<le> EPS"
  by code_simp

section \<open>The outcomes of \<^verbatim>\<open>edmonds_karp\<close>\<close>



section \<open>Infeasible demand\<close>

text \<open>
  C4, as the code has it. \<^verbatim>\<open>sufficient_flow\<close> first rejects an empty supply or demand
  dictionary ("Sources and sinks must be provided.") and a negative supply or demand
  ("Supplies and demands must be non-negative."). For non-empty dictionaries with
  non-negative values:
  \<^item> when the total supply is less than the total demand minus the tolerance, it raises
    "Insufficient total supply to meet demand.", whatever the network, the node indices and
    the budget are (the search is not run: nothing of it is evaluated);
  \<^item> when the search runs and returns a flow whose value is short of the total demand
    beyond the tolerance, it raises "Could not satisfy all demand.";
  \<^item> whenever it returns a flow, the search has returned a flow of the expanded network
    whose value reaches the total demand within the tolerance.
  On the network \<open>[[0,3],[3,0]]\<close>, \<^verbatim>\<open>sufficient_flow({0: 2}, {1: 2})\<close> returns a flow of
  value 2 and \<^verbatim>\<open>sufficient_flow({0: 1}, {1: 2})\<close> raises the first of the two messages.
\<close>

theorem sufficient_flow_infeasible:
  "(supply_by_node \<noteq> [] \<and> demand_by_node \<noteq> [] \<and> (\<forall>v \<in> set (map snd supply_by_node). 0 \<le> v) \<and> (\<forall>v \<in> set (map snd demand_by_node). 0 \<le> v)
      \<and> sum_list (map snd supply_by_node) + EPS < sum_list (map snd demand_by_node) \<longrightarrow>
      sufficient_flow N supply_by_node demand_by_node maxiter = Some (Inl (TubePlanningError InsufficientSupply)))
   \<and> (supply_by_node \<noteq> [] \<and> demand_by_node \<noteq> [] \<and> (\<forall>v \<in> set (map snd supply_by_node). 0 \<le> v) \<and> (\<forall>v \<in> set (map snd demand_by_node). 0 \<le> v)
      \<and> \<not> sum_list (map snd supply_by_node) + EPS < sum_list (map snd demand_by_node)
      \<and> connect_sources (embed (adjacency_matrix N) (n_nodes N + 2)) (n_nodes N) supply_by_node = Inr with_sources
      \<and> connect_sinks with_sources (n_nodes N) demand_by_node = Inr expanded
      \<and> Network_init expanded = Inr expanded_net
      \<and> edmonds_karp expanded_net (int (n_nodes N)) (int (n_nodes N) + 1) maxiter = Some (Inr expanded_flow)
      \<and> flow_value expanded_flow + EPS < sum_list (map snd demand_by_node) \<longrightarrow>
      sufficient_flow N supply_by_node demand_by_node maxiter = Some (Inl (TubePlanningError DemandNotSatisfied)))
   \<and> (sufficient_flow N supply_by_node demand_by_node maxiter = Some (Inr f) \<longrightarrow>
      (\<exists>with_sources expanded expanded_net expanded_flow.
         connect_sources (embed (adjacency_matrix N) (n_nodes N + 2)) (n_nodes N) supply_by_node = Inr with_sources
         \<and> connect_sinks with_sources (n_nodes N) demand_by_node = Inr expanded
         \<and> Network_init expanded = Inr expanded_net
         \<and> edmonds_karp expanded_net (int (n_nodes N)) (int (n_nodes N) + 1) maxiter = Some (Inr expanded_flow)
         \<and> sum_list (map snd demand_by_node) \<le> flow_value expanded_flow + EPS))
   \<and> sufficient_flow \<lparr>adjacency_matrix = [[0, 3], [3, 0]]\<rparr> [(0, 2)] [(1, 2)] 1000
       = Some (Inr \<lparr>flow_matrix = [[0, 2], [- 2, 0]], sources = [0], sinks = [1]\<rparr>)
   \<and> flow_value \<lparr>flow_matrix = [[0, 2], [- 2, 0]], sources = [0], sinks = [1]\<rparr> = 2
   \<and> sufficient_flow \<lparr>adjacency_matrix = [[0, 3], [3, 0]]\<rparr> [(0, 1)] [(1, 2)] 1000
       = Some (Inl (TubePlanningError InsufficientSupply))"
proof (intro conjI impI)
  assume "supply_by_node \<noteq> [] \<and> demand_by_node \<noteq> [] \<and> (\<forall>v \<in> set (map snd supply_by_node). 0 \<le> v) \<and> (\<forall>v \<in> set (map snd demand_by_node). 0 \<le> v)
      \<and> sum_list (map snd supply_by_node) + EPS < sum_list (map snd demand_by_node)"
  then show "sufficient_flow N supply_by_node demand_by_node maxiter = Some (Inl (TubePlanningError InsufficientSupply))"
    by (auto simp: sufficient_flow_def list_ex_iff Let_def)
next
  assume "supply_by_node \<noteq> [] \<and> demand_by_node \<noteq> [] \<and> (\<forall>v \<in> set (map snd supply_by_node). 0 \<le> v) \<and> (\<forall>v \<in> set (map snd demand_by_node). 0 \<le> v)
      \<and> \<not> sum_list (map snd supply_by_node) + EPS < sum_list (map snd demand_by_node)
      \<and> connect_sources (embed (adjacency_matrix N) (n_nodes N + 2)) (n_nodes N) supply_by_node = Inr with_sources
      \<and> connect_sinks with_sources (n_nodes N) demand_by_node = Inr expanded
      \<and> Network_init expanded = Inr expanded_net
      \<and> edmonds_karp expanded_net (int (n_nodes N)) (int (n_nodes N) + 1) maxiter = Some (Inr expanded_flow)
      \<and> flow_value expanded_flow + EPS < sum_list (map snd demand_by_node)"
  then show "sufficient_flow N supply_by_node demand_by_node maxiter = Some (Inl (TubePlanningError DemandNotSatisfied))"
    by (auto simp: sufficient_flow_def list_ex_iff Let_def)
next
  assume "sufficient_flow N supply_by_node demand_by_node maxiter = Some (Inr f)"
  then show "\<exists>with_sources expanded expanded_net expanded_flow.
         connect_sources (embed (adjacency_matrix N) (n_nodes N + 2)) (n_nodes N) supply_by_node = Inr with_sources
         \<and> connect_sinks with_sources (n_nodes N) demand_by_node = Inr expanded
         \<and> Network_init expanded = Inr expanded_net
         \<and> edmonds_karp expanded_net (int (n_nodes N)) (int (n_nodes N) + 1) maxiter = Some (Inr expanded_flow)
         \<and> sum_list (map snd demand_by_node) \<le> flow_value expanded_flow + EPS"
    by (auto simp: sufficient_flow_def Let_def split: if_splits sum.splits option.splits)
next
  show "sufficient_flow \<lparr>adjacency_matrix = [[0, 3], [3, 0]]\<rparr> [(0, 2)] [(1, 2)] 1000
       = Some (Inr \<lparr>flow_matrix = [[0, 2], [- 2, 0]], sources = [0], sinks = [1]\<rparr>)"
    by code_simp
next
  show "flow_value \<lparr>flow_matrix = [[0, 2], [- 2, 0]], sources = [0], sinks = [1]\<rparr> = 2"
    by code_simp
next
  show "sufficient_flow \<lparr>adjacency_matrix = [[0, 3], [3, 0]]\<rparr> [(0, 1)] [(1, 2)] 1000
       = Some (Inl (TubePlanningError InsufficientSupply))"
    by code_simp
qed

theorem sufficient_flow_infeasible_witness:
  "sufficient_flow \<lparr>adjacency_matrix = [[0, 1], [1, 0]]\<rparr> [(0, 1)] [(1, 2)] 10
       = Some (Inl (TubePlanningError InsufficientSupply))
   \<and> sufficient_flow \<lparr>adjacency_matrix = [[0, 1], [1, 0]]\<rparr> [(0, 2)] [(1, 2)] 10
       = Some (Inl (TubePlanningError DemandNotSatisfied))
   \<and> edmonds_karp \<lparr>adjacency_matrix = [[0, 1, 2, 0], [1, 0, 0, 2], [2, 0, 0, 0], [0, 2, 0, 0]]\<rparr> 2 3 10
       = Some (Inr \<lparr>flow_matrix = [[0, 1, - 1, 0], [- 1, 0, 0, 1], [1, 0, 0, 0], [0, - 1, 0, 0]],
                     sources = [2], sinks = [3]\<rparr>)
   \<and> flow_value \<lparr>flow_matrix = [[0, 1, - 1, 0], [- 1, 0, 0, 1], [1, 0, 0, 0], [0, - 1, 0, 0]],
                     sources = [2], sinks = [3]\<rparr> + EPS < 2
   \<and> (\<exists>expanded_flow. edmonds_karp \<lparr>adjacency_matrix = [[0, 3, 2, 0], [3, 0, 0, 2], [2, 0, 0, 0], [0, 2, 0, 0]]\<rparr> 2 3 10
          = Some (Inr expanded_flow) \<and> 2 \<le> flow_value expanded_flow + EPS)"
proof -
  let ?N = "\<lparr>adjacency_matrix = [[0, 1], [1, 0]]\<rparr>"
  let ?ef = "\<lparr>flow_matrix = [[0, 1, - 1, 0], [- 1, 0, 0, 1], [1, 0, 0, 0], [0, - 1, 0, 0]],
                     sources = [2], sinks = [3]\<rparr>"
  have n: "n_nodes ?N = 2" by (simp add: n_nodes_def)
  have s1: "sum_list (map snd [(0::int, 1::rat)]) + EPS < sum_list (map snd [(1::int, 2::rat)])"
    by (simp add: EPS_def)
  have s2: "\<not> sum_list (map snd [(0::int, 2::rat)]) + EPS < sum_list (map snd [(1::int, 2::rat)])"
    by (simp add: EPS_def)
  have c1: "connect_sources (embed (adjacency_matrix ?N) (n_nodes ?N + 2)) (n_nodes ?N) [(0, 2)]
            = Inr [[0, 1, 2, 0], [1, 0, 0, 0], [2, 0, 0, 0], [0, 0, 0, 0]]"
    by code_simp
  have c2: "connect_sinks [[0, 1, 2, 0], [1, 0, 0, 0], [2, 0, 0, 0], [0, 0, 0, 0]] (n_nodes ?N) [(1, 2)]
            = Inr [[0, 1, 2, 0], [1, 0, 0, 2], [2, 0, 0, 0], [0, 2, 0, 0]]"
    by code_simp
  have c3: "Network_init [[0, 1, 2, 0], [1, 0, 0, 2], [2, 0, 0, 0], [0, 2, 0, 0]]
            = Inr \<lparr>adjacency_matrix = [[0, 1, 2, 0], [1, 0, 0, 2], [2, 0, 0, 0], [0, 2, 0, 0]]\<rparr>"
    by code_simp
  have c4: "edmonds_karp \<lparr>adjacency_matrix = [[0, 1, 2, 0], [1, 0, 0, 2], [2, 0, 0, 0], [0, 2, 0, 0]]\<rparr>
              (int (n_nodes ?N)) (int (n_nodes ?N) + 1) 10 = Some (Inr ?ef)"
    by code_simp
  have c5: "flow_value ?ef + EPS < sum_list (map snd [(1::int, 2::rat)])"
    by code_simp
  have c6: "sufficient_flow \<lparr>adjacency_matrix = [[0, 3], [3, 0]]\<rparr> [(0, 2)] [(1, 2)] 10
       = Some (Inr \<lparr>flow_matrix = [[0, 2], [- 2, 0]], sources = [0], sinks = [1]\<rparr>)"
    by code_simp
  have n3: "n_nodes \<lparr>adjacency_matrix = [[0, 3], [3, 0]]\<rparr> = 2" by (simp add: n_nodes_def)
  have c7: "connect_sources (embed (adjacency_matrix \<lparr>adjacency_matrix = [[0, 3], [3, 0]]\<rparr>) 4) 2 [(0, 2)]
            = Inr [[0, 3, 2, 0], [3, 0, 0, 0], [2, 0, 0, 0], [0, 0, 0, 0]]"
    by code_simp
  have c8: "connect_sinks [[0, 3, 2, 0], [3, 0, 0, 0], [2, 0, 0, 0], [0, 0, 0, 0]] 2 [(1, 2)]
            = Inr [[0, 3, 2, 0], [3, 0, 0, 2], [2, 0, 0, 0], [0, 2, 0, 0]]"
    by code_simp
  have c9: "Network_init [[0, 3, 2, 0], [3, 0, 0, 2], [2, 0, 0, 0], [0, 2, 0, 0]]
            = Inr \<lparr>adjacency_matrix = [[0, 3, 2, 0], [3, 0, 0, 2], [2, 0, 0, 0], [0, 2, 0, 0]]\<rparr>"
    by code_simp
  note t1 = sufficient_flow_infeasible [where supply_by_node = "[(0, 1)]" and demand_by_node = "[(1, 2)]"
      and N = "?N" and maxiter = 10]
  note t2 = sufficient_flow_infeasible [where supply_by_node = "[(0, 2)]" and demand_by_node = "[(1, 2)]"
      and N = "?N" and maxiter = 10
      and with_sources = "[[0, 1, 2, 0], [1, 0, 0, 0], [2, 0, 0, 0], [0, 0, 0, 0]]"
      and expanded = "[[0, 1, 2, 0], [1, 0, 0, 2], [2, 0, 0, 0], [0, 2, 0, 0]]"
      and expanded_net = "\<lparr>adjacency_matrix = [[0, 1, 2, 0], [1, 0, 0, 2], [2, 0, 0, 0], [0, 2, 0, 0]]\<rparr>"
      and expanded_flow = "?ef"]
  note t3 = sufficient_flow_infeasible [where supply_by_node = "[(0, 2)]" and demand_by_node = "[(1, 2)]"
      and N = "\<lparr>adjacency_matrix = [[0, 3], [3, 0]]\<rparr>" and maxiter = 10
      and f = "\<lparr>flow_matrix = [[0, 2], [- 2, 0]], sources = [0], sinks = [1]\<rparr>"]
  have "sufficient_flow ?N [(0, 1)] [(1, 2)] 10 = Some (Inl (TubePlanningError InsufficientSupply))"
    using t1 s1 by simp
  moreover have "sufficient_flow ?N [(0, 2)] [(1, 2)] 10 = Some (Inl (TubePlanningError DemandNotSatisfied))"
    using t2 s2 c1 c2 c3 c4 c5 by simp
  moreover have "\<exists>expanded_flow. edmonds_karp \<lparr>adjacency_matrix = [[0, 3, 2, 0], [3, 0, 0, 2], [2, 0, 0, 0], [0, 2, 0, 0]]\<rparr> 2 3 10
          = Some (Inr expanded_flow) \<and> 2 \<le> flow_value expanded_flow + EPS"
    using t3 c6 c7 c8 c9 n3 by auto
  moreover have "edmonds_karp \<lparr>adjacency_matrix = [[0, 1, 2, 0], [1, 0, 0, 2], [2, 0, 0, 0], [0, 2, 0, 0]]\<rparr> 2 3 10
       = Some (Inr ?ef)" using c4 n by simp
  moreover have "flow_value ?ef + EPS < 2" using c5 by simp
  ultimately show ?thesis by simp
qed

text \<open>
  C4 as stated, for every supply and demand dictionary with valid node indices, fails:
  a negative supply, or an empty supply dictionary, makes the total supply less than the
  total demand minus the tolerance, and the call raises the message of the earlier check,
  not the one of an infeasible demand.
\<close>

theorem sufficient_flow_negative_supply:
  "sum_list (map snd [(0::int, - 1 :: rat)]) + EPS < sum_list (map snd [(1::int, 2::rat)])
   \<and> sufficient_flow \<lparr>adjacency_matrix = [[0, 3], [3, 0]]\<rparr> [(0, - 1)] [(1, 2)] 1000
       = Some (Inl (TubePlanningError NegativeSupplyOrDemand))
   \<and> sum_list (map snd ([] :: (int \<times> rat) list)) + EPS < sum_list (map snd [(1::int, 2::rat)])
   \<and> sufficient_flow \<lparr>adjacency_matrix = [[0, 3], [3, 0]]\<rparr> [] [(1, 2)] 1000
       = Some (Inl (TubePlanningError TerminalsNotProvided))
   \<and> NegativeSupplyOrDemand \<noteq> InsufficientSupply \<and> TerminalsNotProvided \<noteq> InsufficientSupply"
  by code_simp

section \<open>Failures of \<^verbatim>\<open>send_flow_along\<close>\<close>

lemma pairs_cover:
  "2 \<le> length path \<Longrightarrow> x \<in> set path \<Longrightarrow> \<exists>p \<in> set (pairs path). fst p = x \<or> snd p = x"
proof (induction path)
  case Nil
  then show ?case by simp
next
  case (Cons a path)
  show ?case
  proof (cases path)
    case Nil
    with Cons.prems show ?thesis by simp
  next
    case (Cons b rest)
    show ?thesis
    proof (cases "x = a \<or> x = b")
      case True
      then show ?thesis using Cons by auto
    next
      case False
      with Cons.prems Cons have x: "x \<in> set rest" by auto
      then have "2 \<le> length path" using Cons by (cases rest) auto
      from Cons.IH [OF this] x Cons obtain p where "p \<in> set (pairs path)" "fst p = x \<or> snd p = x"
        by auto
      then show ?thesis using Cons by auto
    qed
  qed
qed

lemma send_pairs_stops:
  assumes "\<exists>p \<in> set ps. \<not> (case p of (u, v) \<Rightarrow> 0 \<le> u \<and> 0 \<le> v \<and> u < int (length m) \<and> v < int (length m))"
  shows "\<exists>m'. send_pairs m ps amount = (m', Some (TubePlanningError PathInvalidIndex))
     \<and> send_pairs m (takeWhile (\<lambda>(u, v). 0 \<le> u \<and> 0 \<le> v \<and> u < int (length m) \<and> v < int (length m)) ps) amount = (m', None)"
  using assms
proof (induction ps arbitrary: m)
  case Nil
  then show ?case by simp
next
  case (Cons p ps)
  obtain u v where p: "p = (u, v)" by (cases p)
  show ?case
  proof (cases "0 \<le> u \<and> 0 \<le> v \<and> u < int (length m) \<and> v < int (length m)")
    case False
    then show ?thesis by (auto simp: p)
  next
    case True
    let ?m = "mat_inc (mat_inc m (nat u) (nat v) amount) (nat v) (nat u) (- amount)"
    from Cons.prems True p
    have "\<exists>p \<in> set ps. \<not> (case p of (u, v) \<Rightarrow> 0 \<le> u \<and> 0 \<le> v \<and> u < int (length ?m) \<and> v < int (length ?m))"
      by auto
    from Cons.IH [OF this] True show ?thesis
      by (auto simp: p)
  qed
qed

text \<open>
  C5, as the code has it. \<^verbatim>\<open>send_flow_along\<close> raises for a path of fewer than two nodes
  ("Path must contain at least two nodes.") before it touches the matrix, and for a path of
  two or more nodes with an index out of bounds ("Path contains invalid node index."). In
  the second case the pairs are checked one by one as they are applied: the updates of the
  pairs before the first pair with an index out of bounds have been made and remain, so the
  matrix is unchanged only when that is the first pair of the path.
\<close>

theorem send_flow_along_failure:
  "(length path < 2 \<longrightarrow>
      send_flow_along f path amount = (f, Some (TubePlanningError PathTooShort)))
   \<and> (2 \<le> length path \<and> (\<exists>x \<in> set path. x < 0 \<or> int (length (flow_matrix f)) \<le> x) \<longrightarrow>
      (\<exists>m. send_flow_along f path amount
             = (f\<lparr>flow_matrix := m\<rparr>, Some (TubePlanningError PathInvalidIndex))
         \<and> send_pairs (flow_matrix f)
              (takeWhile (\<lambda>(u, v). 0 \<le> u \<and> 0 \<le> v \<and> u < int (length (flow_matrix f))
                                   \<and> v < int (length (flow_matrix f))) (pairs path))
              amount = (m, None)))
   \<and> (2 \<le> length path \<and> (path ! 0 < 0 \<or> int (length (flow_matrix f)) \<le> path ! 0
                           \<or> path ! 1 < 0 \<or> int (length (flow_matrix f)) \<le> path ! 1) \<longrightarrow>
      send_flow_along f path amount = (f, Some (TubePlanningError PathInvalidIndex)))"
proof (intro conjI impI)
  assume "length path < 2"
  then show "send_flow_along f path amount = (f, Some (TubePlanningError PathTooShort))"
    by (simp add: send_flow_along_def)
next
  assume a: "2 \<le> length path \<and> (\<exists>x \<in> set path. x < 0 \<or> int (length (flow_matrix f)) \<le> x)"
  then obtain x where x: "x \<in> set path" "x < 0 \<or> int (length (flow_matrix f)) \<le> x" by blast
  from pairs_cover [OF _ x(1)] a obtain p where p: "p \<in> set (pairs path)" "fst p = x \<or> snd p = x"
    by blast
  from p(2) x(2) have "\<not> (case p of (u, v) \<Rightarrow>
      0 \<le> u \<and> 0 \<le> v \<and> u < int (length (flow_matrix f)) \<and> v < int (length (flow_matrix f)))"
    by (cases p) auto
  with p(1) have "\<exists>p \<in> set (pairs path). \<not> (case p of (u, v) \<Rightarrow>
      0 \<le> u \<and> 0 \<le> v \<and> u < int (length (flow_matrix f)) \<and> v < int (length (flow_matrix f)))"
    by blast
  from send_pairs_stops [OF this, of amount] a
  show "\<exists>m. send_flow_along f path amount
             = (f\<lparr>flow_matrix := m\<rparr>, Some (TubePlanningError PathInvalidIndex))
         \<and> send_pairs (flow_matrix f)
              (takeWhile (\<lambda>(u, v). 0 \<le> u \<and> 0 \<le> v \<and> u < int (length (flow_matrix f))
                                   \<and> v < int (length (flow_matrix f))) (pairs path))
              amount = (m, None)"
    by (auto simp: send_flow_along_def)
next
  assume a: "2 \<le> length path \<and> (path ! 0 < 0 \<or> int (length (flow_matrix f)) \<le> path ! 0
                           \<or> path ! 1 < 0 \<or> int (length (flow_matrix f)) \<le> path ! 1)"
  then obtain u v rest where path: "path = u # v # rest"
    by (cases path; cases "tl path") auto
  with a show "send_flow_along f path amount = (f, Some (TubePlanningError PathInvalidIndex))"
    by (auto simp: send_flow_along_def)
qed

theorem send_flow_along_failure_witness:
  "send_flow_along \<lparr>flow_matrix = [[0, 0], [0, 0]], sources = [0], sinks = [1]\<rparr> [7] 1
     = (\<lparr>flow_matrix = [[0, 0], [0, 0]], sources = [0], sinks = [1]\<rparr>, Some (TubePlanningError PathTooShort))
   \<and> (\<exists>m. send_flow_along \<lparr>flow_matrix = [[0, 0], [0, 0]], sources = [0], sinks = [1]\<rparr> [0, 1, 5] 1
          = (\<lparr>flow_matrix = m, sources = [0], sinks = [1]\<rparr>, Some (TubePlanningError PathInvalidIndex))
        \<and> send_pairs [[0, 0], [0, 0]] [(0, 1)] 1 = (m, None))
   \<and> send_flow_along \<lparr>flow_matrix = [[0, 0], [0, 0]], sources = [0], sinks = [1]\<rparr> [0, 5, 1] 1
     = (\<lparr>flow_matrix = [[0, 0], [0, 0]], sources = [0], sinks = [1]\<rparr>, Some (TubePlanningError PathInvalidIndex))"
  using send_flow_along_failure [of "[7]" "\<lparr>flow_matrix = [[0, 0], [0, 0]], sources = [0], sinks = [1]\<rparr>" 1]
    send_flow_along_failure [of "[0, 1, 5]" "\<lparr>flow_matrix = [[0, 0], [0, 0]], sources = [0], sinks = [1]\<rparr>" 1]
    send_flow_along_failure [of "[0, 5, 1]" "\<lparr>flow_matrix = [[0, 0], [0, 0]], sources = [0], sinks = [1]\<rparr>" 1]
  by simp

text \<open>
  C5 as stated fails: on the zero flow of two nodes the path \<open>[0, 1, 5]\<close> raises at its
  second pair, after the first pair has been applied, and the matrix is changed.
\<close>

theorem send_flow_along_partial_update:
  "Flow_init [[0, 0], [0, 0]] [0] [1] = Inr \<lparr>flow_matrix = [[0, 0], [0, 0]], sources = [0], sinks = [1]\<rparr>
   \<and> send_flow_along \<lparr>flow_matrix = [[0, 0], [0, 0]], sources = [0], sinks = [1]\<rparr> [0, 1, 5] 1
     = (\<lparr>flow_matrix = [[0, 1], [- 1, 0]], sources = [0], sinks = [1]\<rparr>, Some (TubePlanningError PathInvalidIndex))
   \<and> [[0, 1], [- 1, 0]] \<noteq> [[0, 0], [0, 0 :: rat]]"
  by code_simp

section \<open>The residual network of an iteration\<close>




section \<open>Terminals of \<^verbatim>\<open>maximum_flow\<close>\<close>

text \<open>
  C7. \<^verbatim>\<open>maximum_flow\<close> raises as soon as the deduplicated sources and sinks share a node
  (message "Sources and sinks must be disjoint.") and, when they share none, as soon as one
  of the two is empty ("Provide at least one source and one sink."), whatever the network
  and the budget are: these two messages are the conflicting-terminals failures. In
  particular \<^verbatim>\<open>maximum_flow([0], [0])\<close> raises the first on every network.
\<close>

theorem maximum_flow_conflicting_terminals:
  "(set (fromkeys srcs) \<inter> set (fromkeys snks) \<noteq> {} \<longrightarrow>
      maximum_flow N srcs snks maxiter = Some (Inl (TubePlanningError TerminalsNotDisjoint)))
   \<and> (set (fromkeys srcs) \<inter> set (fromkeys snks) = {} \<and> (fromkeys srcs = [] \<or> fromkeys snks = []) \<longrightarrow>
      maximum_flow N srcs snks maxiter = Some (Inl (TubePlanningError NoSourceOrNoSink)))
   \<and> maximum_flow N [0] [0] maxiter = Some (Inl (TubePlanningError TerminalsNotDisjoint))"
  by (simp add: maximum_flow_def fromkeys_def)

theorem maximum_flow_conflicting_terminals_witness:
  "set (fromkeys [0, 1, 0]) \<inter> set (fromkeys [1]) \<noteq> {}
   \<and> maximum_flow \<lparr>adjacency_matrix = [[0, 3], [3, 0]]\<rparr> [0, 1, 0] [1] 1000
       = Some (Inl (TubePlanningError TerminalsNotDisjoint))
   \<and> set (fromkeys []) \<inter> set (fromkeys [1]) = {} \<and> fromkeys [] = []
   \<and> maximum_flow \<lparr>adjacency_matrix = [[0, 3], [3, 0]]\<rparr> [] [1] 1000
       = Some (Inl (TubePlanningError NoSourceOrNoSink))"
  using maximum_flow_conflicting_terminals
          [of "[0, 1, 0]" "[1]" "\<lparr>adjacency_matrix = [[0, 3], [3, 0]]\<rparr>" 1000]
        maximum_flow_conflicting_terminals
          [of "[]" "[1]" "\<lparr>adjacency_matrix = [[0, 3], [3, 0]]\<rparr>" 1000]
  by (simp add: fromkeys_def)

section \<open>The zero network is neutral for the combination of networks\<close>

text \<open>
  C8. For every constructed network \<open>N\<close>, the all-zero matrix of the same size is a
  network \<open>Z\<close>, and \<open>N + Z\<close> and \<open>Z + N\<close> are both \<open>N\<close> itself (the same capacity matrix),
  which \<^verbatim>\<open>==\<close> compares equal to \<open>N\<close>.
\<close>

theorem Network_add_zero:
  assumes "Network_init m = Inr N"
  shows "\<exists>Z. Network_init (zeros (n_nodes N) (n_nodes N)) = Inr Z
           \<and> Network_add N Z = Inr N \<and> Network_add Z N = Inr N
           \<and> Network_eq N N = Inr True"
proof -
  let ?A = "adjacency_matrix N"
  let ?n = "n_nodes N"
  let ?Z = "\<lparr>adjacency_matrix = zeros ?n ?n\<rparr>"
  note ok = Network_init_ok [OF assms]
  have N: "Network_init ?A = Inr N"
    using Network_init_fixed [OF ok(1-3)] by simp
  have Z: "Network_init (zeros ?n ?n) = Inr ?Z"
    by (rule Network_init_fixed [OF is_square_zeros nonneg_zeros zero_diag_zeros])
  have nZ: "n_nodes ?Z = ?n" by (simp add: n_nodes_def)
  have n: "?n = length ?A" by (simp add: n_nodes_def)
  have "Network_add N ?Z = Network_init (mat_add (zeros ?n ?n) (embed ?A ?n))"
    by (simp add: Network_add_def nZ Let_def)
  also have "\<dots> = Inr N"
    using N by (simp add: n embed_square [OF ok(1)] mat_add_zeros_left [OF ok(1)])
  finally have 1: "Network_add N ?Z = Inr N" .
  have "Network_add ?Z N = Network_init (mat_add ?A (embed (zeros ?n ?n) ?n))"
    by (simp add: Network_add_def nZ Let_def)
  also have "\<dots> = Inr N"
    using N by (simp add: embed_zeros) (simp add: n mat_add_zeros_right [OF ok(1)])
  finally have 2: "Network_add ?Z N = Inr N" .
  have 3: "Network_eq N N = Inr True"
    by (simp add: Network_eq_def allclose_refl default_atol_def)
  from Z 1 2 3 show ?thesis by blast
qed

theorem Network_add_zero_witness:
  "Network_init [[0, 3], [3, 0]] = Inr \<lparr>adjacency_matrix = [[0, 3], [3, 0]]\<rparr>
   \<and> Network_init (zeros 2 2) = Inr \<lparr>adjacency_matrix = [[0, 0], [0, 0]]\<rparr>
   \<and> Network_add \<lparr>adjacency_matrix = [[0, 3], [3, 0]]\<rparr> \<lparr>adjacency_matrix = [[0, 0], [0, 0]]\<rparr>
       = Inr \<lparr>adjacency_matrix = [[0, 3], [3, 0]]\<rparr>
   \<and> Network_eq \<lparr>adjacency_matrix = [[0, 3], [3, 0]]\<rparr> \<lparr>adjacency_matrix = [[0, 3], [3, 0]]\<rparr> = Inr True"
proof -
  have i: "Network_init [[0, 3], [3, 0]] = Inr \<lparr>adjacency_matrix = [[0, 3], [3, 0]]\<rparr>"
    by code_simp
  have z: "Network_init (zeros 2 2) = Inr \<lparr>adjacency_matrix = [[0, 0], [0, 0]]\<rparr>"
    by code_simp
  have n: "n_nodes \<lparr>adjacency_matrix = [[0, 3], [3, 0]]\<rparr> = 2"
    by (simp add: n_nodes_def)
  from Network_add_zero [OF i] z n show ?thesis
    using i by auto
qed

section \<open>The capacity constraint of the flows of \<^verbatim>\<open>edmonds_karp\<close>\<close>




section \<open>The method and the module-level function\<close>

lemma fn_body_eq_ek_body: "fn_body G s t f = ek_body G s t f"
  by (simp add: fn_body_def ek_body_def)

lemma fn_loop_diverges_iff: "fn_loop k G s t f = None \<longleftrightarrow> ek_loop k G s t f = None"
  by (induction k arbitrary: f)
     (auto simp: fn_body_eq_ek_body split: option.splits sum.splits iteration.splits)

lemma fn_loop_returns_iff: "fn_loop k G s t f = Some (Inr r) \<longleftrightarrow> ek_loop k G s t f = Some (Inr r)"
  by (induction k arbitrary: f)
     (auto simp: fn_body_eq_ek_body split: option.splits sum.splits iteration.splits)

lemma fn_loop_raises_iff:
  "(\<exists>e. fn_loop k G s t f = Some (Inl e)) \<longleftrightarrow> (\<exists>e. ek_loop k G s t f = Some (Inl e))"
  by (induction k arbitrary: f)
     (auto simp: fn_body_eq_ek_body split: option.splits sum.splits iteration.splits)

text \<open>
  C10. For distinct source and sink within the bounds of the network, the module-level
  function \<^verbatim>\<open>edmonds_karp(G, s, t, mi)\<close> and the method \<^verbatim>\<open>G.edmonds_karp(s, t, mi)\<close> agree:
  one fails to return exactly when the other does, one raises exactly when the other does
  (the method with the message "Maximum iterations reached without convergence." where the
  function raises without a message), and one returns a flow exactly when the other returns
  the same flow, with the same matrix, sources and sinks.
\<close>

theorem edmonds_karp_fn_agrees:
  assumes "s \<noteq> t" and "0 \<le> s" and "s < int (n_nodes G)" and "0 \<le> t" and "t < int (n_nodes G)"
  shows "(edmonds_karp_fn G s t mi = None \<longleftrightarrow> edmonds_karp G s t mi = None)
       \<and> ((\<exists>e. edmonds_karp_fn G s t mi = Some (Inl e)) \<longleftrightarrow> (\<exists>e. edmonds_karp G s t mi = Some (Inl e)))
       \<and> (\<forall>f. edmonds_karp_fn G s t mi = Some (Inr f) \<longleftrightarrow> edmonds_karp G s t mi = Some (Inr f))"
proof (cases "zero_flow (n_nodes G) [s] [t]")
  case (Inl e)
  with assms show ?thesis
    by (simp add: edmonds_karp_fn_def edmonds_karp_def)
next
  case (Inr f0)
  with assms have "edmonds_karp_fn G s t mi = fn_loop (nat mi) G s t f0"
    and "edmonds_karp G s t mi = ek_loop (nat mi) G s t f0"
    by (simp_all add: edmonds_karp_fn_def edmonds_karp_def)
  then show ?thesis
    using fn_loop_diverges_iff [of "nat mi" G s t f0] fn_loop_returns_iff [of "nat mi" G s t f0]
      fn_loop_raises_iff [of "nat mi" G s t f0]
    by simp
qed

theorem edmonds_karp_fn_agrees_witness:
  "(0::int) \<noteq> 1 \<and> (1::int) < int (n_nodes \<lparr>adjacency_matrix = [[0, 3], [3, 0]]\<rparr>)
   \<and> (\<forall>f. edmonds_karp_fn \<lparr>adjacency_matrix = [[0, 3], [3, 0]]\<rparr> 0 1 1000 = Some (Inr f) \<longleftrightarrow>
           edmonds_karp \<lparr>adjacency_matrix = [[0, 3], [3, 0]]\<rparr> 0 1 1000 = Some (Inr f))
   \<and> ((\<exists>e. edmonds_karp_fn \<lparr>adjacency_matrix = [[0, 3], [3, 0]]\<rparr> 0 1 1 = Some (Inl e)) \<longleftrightarrow>
       (\<exists>e. edmonds_karp \<lparr>adjacency_matrix = [[0, 3], [3, 0]]\<rparr> 0 1 1 = Some (Inl e)))"
  using edmonds_karp_fn_agrees [of 0 1 "\<lparr>adjacency_matrix = [[0, 3], [3, 0]]\<rparr>" 1000]
        edmonds_karp_fn_agrees [of 0 1 "\<lparr>adjacency_matrix = [[0, 3], [3, 0]]\<rparr>" 1]
  by (simp add: n_nodes_def)

end
